theory Spec2Isabelle
  imports Main "HOL-Library.List_Lexorder" "HOL-Library.Sublist"
begin

section \<open>WebArchive subdomain extractor: a shallow embedding of WebArchive.py\<close>

text \<open>
  A Python \<open>str\<close> is modelled as the list of its code points, each a natural number
  (\<open>ord\<close>), so that every character of Unicode is a value of the model. \<open>length\<close> is
  Python's \<open>len\<close>, and the lexicographic order of \<open>List_Lexorder\<close> over the order of the
  numbers is Python's order on \<open>str\<close> (by code point, a proper prefix first). \<open>codes\<close> gives
  the code points of a literal and \<open>cp\<close> the code point of a character. Exceptions are values
  of the type \<open>error\<close>; a function that can raise returns \<open>error + 'a\<close>, with \<open>Inl\<close> for the
  exception.
\<close>

type_synonym codepoint = nat

type_synonym str = "codepoint list"

definition cp :: "char \<Rightarrow> codepoint" where
  "cp c = of_char c"

definition codes :: "string \<Rightarrow> str" where
  "codes s = map cp s"

subsection \<open>Exceptions\<close>

text \<open>The failures of a DNS lookup (\<open>dns.resolver\<close>) and of an HTTP request (\<open>requests\<close>,
  where \<open>HTTPError\<close> carries the status code that \<open>raise_for_status\<close> refused).\<close>

datatype dns_failure = NXDOMAIN | Timeout | NoNameservers | NoAnswer

datatype request_failure =
    ConnectionError
  | ConnectTimeout
  | ReadTimeout
  | ChunkedEncodingError
  | HTTPError nat

datatype error =
    ValueError
  | ReError
  | DNSException dns_failure
  | RequestException request_failure

subsection \<open>The functions of the standard library that the program calls\<close>

text \<open>
  The program calls \<open>re.search\<close> with a pattern given by the user, \<open>str.lower\<close>, whose result
  for a string with a non-ASCII character comes from the tables of the Unicode database, and
  \<open>urlparse\<close>, which calls two checks whose tables are not part of the program
  (\<open>ipaddress.ip_address\<close> for a bracketed host, NFKC normalisation for a non-ASCII
  authority). They are parameters of the model:
  \<^item> \<open>re_search p s\<close>: \<open>Inl ReError\<close> when \<open>p\<close> does not compile, else whether \<open>p\<close> matches
    somewhere in \<open>s\<close>;
  \<^item> \<open>unicode_lower s\<close>: \<open>s.lower()\<close> for a string \<open>s\<close> that is not ASCII;
  \<^item> \<open>unicode_is_upper c\<close>: \<open>chr(c).isupper()\<close> for a code point \<open>c\<close> that is not ASCII;
  \<^item> \<open>bracketed_host_invalid h\<close>: \<open>_check_bracketed_host(h)\<close> raises \<open>ValueError\<close>;
  \<^item> \<open>nfkc_invalid n\<close>: the NFKC form of the non-ASCII authority \<open>n\<close> holds one of
    \<open>/?#@:\<close>, so that \<open>_checknetloc(n)\<close> raises \<open>ValueError\<close>.
\<close>

record stdlib =
  re_search :: "str \<Rightarrow> str \<Rightarrow> error + bool"
  unicode_lower :: "str \<Rightarrow> str"
  unicode_is_upper :: "codepoint \<Rightarrow> bool"
  bracketed_host_invalid :: "str \<Rightarrow> bool"
  nfkc_invalid :: "str \<Rightarrow> bool"

text \<open>A library for the closed examples below that work on ASCII strings: its \<open>re.search\<close>
  and its checks fail, its \<open>lower\<close> of a non-ASCII string is empty and it knows no uppercase
  letter outside ASCII. An example that reached it would show it.\<close>

definition failing_stdlib :: stdlib where
  "failing_stdlib =
     \<lparr>re_search = (\<lambda>p s. Inl ReError),
      unicode_lower = (\<lambda>s. []),
      unicode_is_upper = (\<lambda>c. False),
      bracketed_host_invalid = (\<lambda>h. True),
      nfkc_invalid = (\<lambda>n. True)\<rparr>"

text \<open>A library that knows one character outside ASCII, U+03D2 GREEK UPSILON WITH HOOK
  SYMBOL (code point 978): an uppercase letter (\<open>isupper()\<close> is true) that has no lowercase
  form, so that \<open>lower()\<close> leaves it unchanged. On strings of ASCII characters and U+03D2 its
  \<open>lower\<close> and \<open>isupper\<close> are those of Python.\<close>

definition upsilon_stdlib :: stdlib where
  "upsilon_stdlib =
     \<lparr>re_search = (\<lambda>p s. Inl ReError),
      unicode_lower = map (\<lambda>c. if 65 \<le> c \<and> c \<le> 90 then c + 32 else c),
      unicode_is_upper = (\<lambda>c. c = 978),
      bracketed_host_invalid = (\<lambda>h. True),
      nfkc_invalid = (\<lambda>n. True)\<rparr>"

subsection \<open>Python string primitives\<close>

definition is_ascii :: "codepoint \<Rightarrow> bool" where
  "is_ascii c = (c < 128)"

text \<open>The letters A to Z, and \<open>chr(c).isupper()\<close>: among the ASCII characters the letters
  A to Z are the uppercase ones.\<close>

definition ascii_upper :: "codepoint \<Rightarrow> bool" where
  "ascii_upper c = (65 \<le> c \<and> c \<le> 90)"

definition is_upper :: "stdlib \<Rightarrow> codepoint \<Rightarrow> bool" where
  "is_upper L c = (if is_ascii c then ascii_upper c else unicode_is_upper L c)"

text \<open>\<open>s.lower()\<close>: in an ASCII string each of A to Z becomes the letter 32 above it and
  every other character stays; the result for any other string is the library's.\<close>

definition ascii_lower :: "codepoint \<Rightarrow> codepoint" where
  "ascii_lower c = (if ascii_upper c then c + 32 else c)"

definition lower :: "stdlib \<Rightarrow> str \<Rightarrow> str" where
  "lower L s = (if list_all is_ascii s then map ascii_lower s else unicode_lower L s)"

text \<open>\<open>s.startswith(w)\<close> and \<open>w in s\<close> (substring test).\<close>

fun startswith :: "str \<Rightarrow> str \<Rightarrow> bool" where
  "startswith s [] = True"
| "startswith [] (c # w) = False"
| "startswith (d # s) (c # w) = (d = c \<and> startswith s w)"

fun str_in :: "str \<Rightarrow> str \<Rightarrow> bool" where
  "str_in w [] = (w = [])"
| "str_in w (d # s) = (startswith (d # s) w \<or> str_in w s)"

subsection \<open>\<open>filter_subdomains\<close>\<close>

text \<open>
  The \<open>filters\<close> dictionary: the four keys the function reads, each absent (\<open>None\<close>) or
  present with a value. \<open>main\<close> builds it with these keys only.
\<close>

record filters =
  regex :: "str option"
  min_length :: "int option"
  max_length :: "int option"
  exclude_words :: "str list option"

definition empty_filters :: filters where
  "empty_filters = \<lparr>regex = None, min_length = None, max_length = None, exclude_words = None\<rparr>"

text \<open>\<open>not filters\<close>: the argument is \<open>None\<close> or the empty dictionary.\<close>

definition not_filters :: "filters option \<Rightarrow> bool" where
  "not_filters fo = (case fo of None \<Rightarrow> True | Some f \<Rightarrow> f = empty_filters)"

text \<open>The truth value of \<open>filters.get(key)\<close>: a missing key gives \<open>None\<close>, and \<open>None\<close>, the
  empty string, the number 0 and the empty list are false.\<close>

definition truthy_str :: "str option \<Rightarrow> bool" where
  "truthy_str v = (case v of None \<Rightarrow> False | Some s \<Rightarrow> s \<noteq> [])"

definition truthy_int :: "int option \<Rightarrow> bool" where
  "truthy_int v = (case v of None \<Rightarrow> False | Some n \<Rightarrow> n \<noteq> 0)"

definition truthy_list :: "'a list option \<Rightarrow> bool" where
  "truthy_list v = (case v of None \<Rightarrow> False | Some ws \<Rightarrow> ws \<noteq> [])"

text \<open>The body of the loop for one subdomain: \<open>Inr False\<close> is a \<open>continue\<close>, \<open>Inr True\<close>
  reaches \<open>filtered.append(subdomain)\<close>, \<open>Inl e\<close> is an exception of \<open>re.search\<close>. The four
  tests are in the order of the source.\<close>

definition excluded_by_words :: "stdlib \<Rightarrow> filters \<Rightarrow> str \<Rightarrow> bool" where
  "excluded_by_words L f subdomain =
     (truthy_list (exclude_words f) \<and>
      list_ex (\<lambda>word. str_in word (lower L subdomain)) (the (exclude_words f)))"

definition length_checks :: "stdlib \<Rightarrow> filters \<Rightarrow> str \<Rightarrow> bool" where
  "length_checks L f subdomain =
     (if truthy_int (min_length f) \<and> int (length subdomain) < the (min_length f) then False
      else if truthy_int (max_length f) \<and> int (length subdomain) > the (max_length f) then False
      else if excluded_by_words L f subdomain then False
      else True)"

definition keeps :: "stdlib \<Rightarrow> filters \<Rightarrow> str \<Rightarrow> error + bool" where
  "keeps L f subdomain =
     (if truthy_str (regex f) then
        (case re_search L (the (regex f)) subdomain of
           Inl e \<Rightarrow> Inl e
         | Inr found \<Rightarrow> if \<not> found then Inr False else Inr (length_checks L f subdomain))
      else Inr (length_checks L f subdomain))"

fun filter_loop :: "stdlib \<Rightarrow> filters \<Rightarrow> str list \<Rightarrow> str list \<Rightarrow> error + str list" where
  "filter_loop L f [] filtered = Inr filtered"
| "filter_loop L f (subdomain # rest) filtered =
     (case keeps L f subdomain of
        Inl e \<Rightarrow> Inl e
      | Inr False \<Rightarrow> filter_loop L f rest filtered
      | Inr True \<Rightarrow> filter_loop L f rest (filtered @ [subdomain]))"

definition filter_subdomains :: "stdlib \<Rightarrow> str list \<Rightarrow> filters option \<Rightarrow> error + str list" where
  "filter_subdomains L subdomains fo =
     (if not_filters fo then Inr subdomains
      else filter_loop L (the fo) subdomains [])"

subsection \<open>\<open>urlparse(url).netloc\<close>\<close>

text \<open>
  \<open>extract_subdomains\<close> reads only the \<open>netloc\<close> field of \<open>urlparse(url)\<close>, which
  \<open>urllib.parse.urlsplit\<close> computes (CPython 3.11). In its order: leading C0 control
  characters and spaces are stripped; tab, carriage return and line feed are removed; a
  scheme (an ASCII letter, then scheme characters, up to the first \<open>:\<close>) is cut off; if the
  rest starts with \<open>//\<close>, the netloc runs from there to the first of \<open>/ ? #\<close>, and an
  unbalanced or invalid bracketed host raises \<open>ValueError\<close>; \<open>_checknetloc\<close> then accepts
  an empty or ASCII netloc and may raise \<open>ValueError\<close> on another one.
\<close>

definition c0_control_or_space :: "codepoint \<Rightarrow> bool" where
  "c0_control_or_space c = (c \<le> 32)"

definition unsafe_url_byte :: "codepoint \<Rightarrow> bool" where
  "unsafe_url_byte c = (c = cp (CHR 0x09) \<or> c = cp (CHR 0x0D) \<or> c = cp (CHR 0x0A))"

definition ascii_alpha :: "codepoint \<Rightarrow> bool" where
  "ascii_alpha c =
     ((65 \<le> c \<and> c \<le> 90) \<or> (97 \<le> c \<and> c \<le> 122))"

definition ascii_digit :: "codepoint \<Rightarrow> bool" where
  "ascii_digit c = (48 \<le> c \<and> c \<le> 57)"

definition scheme_char :: "codepoint \<Rightarrow> bool" where
  "scheme_char c =
     (ascii_alpha c \<or> ascii_digit c \<or> c = cp (CHR ''+'') \<or> c = cp (CHR ''-'') \<or> c = cp (CHR ''.''))"

text \<open>\<open>s.split(sep)[0]\<close>, also \<open>s.partition(sep)[0]\<close>: the part of \<open>s\<close> before the first
  \<open>sep\<close>, all of \<open>s\<close> when there is none. \<open>s.partition(sep)[2]\<close>: the part after it.\<close>

definition before_first :: "codepoint \<Rightarrow> str \<Rightarrow> str" where
  "before_first sep s = takeWhile (\<lambda>c. c \<noteq> sep) s"

definition after_first :: "codepoint \<Rightarrow> str \<Rightarrow> str" where
  "after_first sep s = drop 1 (dropWhile (\<lambda>c. c \<noteq> sep) s)"

text \<open>The scheme step: \<open>i = url.find(':')\<close>, and when \<open>i > 0\<close>, \<open>url[0]\<close> is an ASCII letter
  and every character of \<open>url[:i]\<close> is a scheme character, \<open>url = url[i+1:]\<close>.\<close>

definition strip_scheme :: "str \<Rightarrow> str" where
  "strip_scheme url =
     (case url of
        [] \<Rightarrow> url
      | c # _ \<Rightarrow>
          if cp (CHR '':'') \<in> set url \<and> before_first (cp (CHR '':'')) url \<noteq> [] \<and> ascii_alpha c \<and>
             list_all scheme_char (before_first (cp (CHR '':'')) url)
          then after_first (cp (CHR '':'')) url
          else url)"

definition netloc_delim :: "codepoint \<Rightarrow> bool" where
  "netloc_delim c = (c = cp (CHR ''/'') \<or> c = cp (CHR ''?'') \<or> c = cp (CHR ''#''))"

text \<open>\<open>_splitnetloc(url, 2)[0]\<close>: \<open>url[2:delim]\<close> for the first delimiter at or after 2.\<close>

definition splitnetloc :: "str \<Rightarrow> str" where
  "splitnetloc url = takeWhile (\<lambda>c. \<not> netloc_delim c) (drop 2 url)"

definition checknetloc :: "stdlib \<Rightarrow> str \<Rightarrow> error + str" where
  "checknetloc L netloc =
     (if netloc = [] \<or> list_all is_ascii netloc then Inr netloc
      else if nfkc_invalid L netloc then Inl ValueError
      else Inr netloc)"

definition urlparse_netloc :: "stdlib \<Rightarrow> str \<Rightarrow> error + str" where
  "urlparse_netloc L url0 =
     (let url1 = dropWhile c0_control_or_space url0;
          url2 = filter (\<lambda>c. \<not> unsafe_url_byte c) url1;
          url3 = strip_scheme url2
      in if take 2 url3 = codes ''//'' then
           (let netloc = splitnetloc url3 in
            if (cp (CHR ''['') \<in> set netloc \<and> cp (CHR '']'') \<notin> set netloc) \<or>
               (cp (CHR '']'') \<in> set netloc \<and> cp (CHR ''['') \<notin> set netloc)
            then Inl ValueError
            else if cp (CHR ''['') \<in> set netloc \<and> cp (CHR '']'') \<in> set netloc \<and>
                    bracketed_host_invalid L
                      (before_first (cp (CHR '']'')) (after_first (cp (CHR ''['')) netloc))
            then Inl ValueError
            else checknetloc L netloc)
         else checknetloc L [])"

subsection \<open>\<open>extract_subdomains\<close>\<close>

text \<open>The body of the loop over \<open>urls\<close>: an exception of \<open>urlparse\<close> is caught and the
  record skipped; \<open>hostname = parsed.netloc.split(":")[0]\<close> is added to the set
  \<open>subdomains\<close> when it is not empty and holds a dot. The result is \<open>sorted(subdomains)\<close>.\<close>

definition extract_step :: "stdlib \<Rightarrow> str set \<Rightarrow> str \<Rightarrow> str set" where
  "extract_step L subdomains url =
     (case urlparse_netloc L url of
        Inl e \<Rightarrow> subdomains
      | Inr netloc \<Rightarrow>
          (let hostname = before_first (cp (CHR '':'')) netloc
           in if hostname \<noteq> [] \<and> cp (CHR ''.'') \<in> set hostname
              then insert hostname subdomains
              else subdomains))"

definition extract_subdomains :: "stdlib \<Rightarrow> str list \<Rightarrow> str list" where
  "extract_subdomains L urls = sorted_list_of_set (foldl (extract_step L) {} urls)"

subsection \<open>\<open>validate_domain\<close>\<close>

text \<open>
  The constructs of regular expressions that \<open>domain_pattern\<close> uses: \<open>^\<close>, \<open>$\<close>, a character
  class, sequence, \<open>r?\<close>, \<open>r{0,n}\<close> and \<open>r*\<close>. A match state is the number of characters
  consumed and the rest of the string. \<open>ends r st\<close> lists the states in which a match of \<open>r\<close>
  that starts in \<open>st\<close> can end, in the order in which Python's backtracking matcher tries
  them (the greedy choice first); \<open>re.match(r, s)\<close> finds a match when there is one from the
  start of \<open>s\<close>. Without the \<open>MULTILINE\<close> flag \<open>^\<close> matches at the start of the string, and
  \<open>$\<close> at its end and also just before a line feed that is its last character. An iteration
  of \<open>r*\<close> that consumes nothing is not repeated.
\<close>

datatype re_pattern =
    Bol
  | Eol
  | Class "codepoint \<Rightarrow> bool"
  | Seq re_pattern re_pattern
  | Opt re_pattern
  | UpTo nat re_pattern
  | Star re_pattern

type_synonym mstate = "nat \<times> str"

fun rsize :: "re_pattern \<Rightarrow> nat" where
  "rsize Bol = 1"
| "rsize Eol = 1"
| "rsize (Class P) = 1"
| "rsize (Seq r1 r2) = Suc (rsize r1 + rsize r2)"
| "rsize (Opt r) = Suc (rsize r)"
| "rsize (UpTo n r) = Suc (n + rsize r)"
| "rsize (Star r) = Suc (rsize r)"

function ends :: "re_pattern \<Rightarrow> mstate \<Rightarrow> mstate list" where
  "ends Bol st = (if fst st = 0 then [st] else [])"
| "ends Eol st = (if snd st = [] \<or> snd st = [cp (CHR 0x0A)] then [st] else [])"
| "ends (Class P) st =
     (case snd st of [] \<Rightarrow> [] | c # t \<Rightarrow> if P c then [(Suc (fst st), t)] else [])"
| "ends (Seq r1 r2) st = concat (map (ends r2) (ends r1 st))"
| "ends (Opt r) st = ends r st @ [st]"
| "ends (UpTo 0 r) st = [st]"
| "ends (UpTo (Suc n) r) st = concat (map (ends (UpTo n r)) (ends r st)) @ [st]"
| "ends (Star r) st =
     concat (map (\<lambda>st'. if length (snd st') < length (snd st) then ends (Star r) st' else [])
                 (ends r st)) @ [st]"
  by pat_completeness auto
termination
  by (relation "measures [\<lambda>(r, st). rsize r, \<lambda>(r, st). length (snd st)]") auto

declare ends.simps [simp del]

definition re_match :: "re_pattern \<Rightarrow> str \<Rightarrow> bool" where
  "re_match r s = (ends r (0, s) \<noteq> [])"

text \<open>The pattern of the source,
  \<^verbatim>\<open>^[a-zA-Z0-9]([a-zA-Z0-9\-]{0,61}[a-zA-Z0-9])?(\.[a-zA-Z0-9]([a-zA-Z0-9\-]{0,61}[a-zA-Z0-9])?)*$\<close>,
  with \<open>label\<close> for \<^verbatim>\<open>[a-zA-Z0-9]([a-zA-Z0-9\-]{0,61}[a-zA-Z0-9])?\<close>.\<close>

definition alnum :: "codepoint \<Rightarrow> bool" where
  "alnum c = (ascii_alpha c \<or> ascii_digit c)"

definition alnum_hyphen :: "codepoint \<Rightarrow> bool" where
  "alnum_hyphen c = (alnum c \<or> c = cp (CHR ''-''))"

definition label :: re_pattern where
  "label = Seq (Class alnum) (Opt (Seq (UpTo 61 (Class alnum_hyphen)) (Class alnum)))"

definition domain_pattern :: re_pattern where
  "domain_pattern =
     Seq Bol (Seq label (Seq (Star (Seq (Class (\<lambda>c. c = cp (CHR ''.''))) label)) Eol))"

definition validate_domain :: "stdlib \<Rightarrow> str \<Rightarrow> error + str" where
  "validate_domain L domain =
     (if \<not> re_match domain_pattern domain then Inl ValueError else Inr (lower L domain))"

text \<open>A label of the domain-name grammar, in the words of the specification: 1 to 63
  characters, alphanumeric or hyphen, no hyphen at either end. The strings that
  \<open>domain_pattern\<close> accepts are compared with it below.\<close>

definition grammar_label :: "str \<Rightarrow> bool" where
  "grammar_label u =
     (1 \<le> length u \<and> length u \<le> 63 \<and> list_all alnum_hyphen u \<and> alnum (hd u) \<and> alnum (last u))"

subsection \<open>\<open>dns_check_domain\<close>\<close>

text \<open>
  \<open>dns.resolver.resolve(domain, "A")\<close> is the parameter \<open>resolve\<close>: it returns the address
  records of the answer, or raises (\<open>NXDOMAIN\<close>, a timeout, \<open>NoNameservers\<close> after SERVFAIL,
  \<open>NoAnswer\<close> when the name has no A record). The call is not inside a \<open>try\<close>, so an
  exception leaves the loop and the function. An answer is true when it has a record.
\<close>

type_synonym resolver = "str \<Rightarrow> error + str list"

fun dns_check_loop :: "resolver \<Rightarrow> str list \<Rightarrow> str list \<Rightarrow> error + str list" where
  "dns_check_loop resolve [] valid_subdomains = Inr valid_subdomains"
| "dns_check_loop resolve (domain # rest) valid_subdomains =
     (case resolve domain of
        Inl e \<Rightarrow> Inl e
      | Inr answers \<Rightarrow>
          if answers \<noteq> [] then dns_check_loop resolve rest (valid_subdomains @ [domain])
          else dns_check_loop resolve rest valid_subdomains)"

definition dns_check_domain :: "resolver \<Rightarrow> str list \<Rightarrow> error + str list" where
  "dns_check_domain resolve subdomains = dns_check_loop resolve subdomains []"

text \<open>A resolver for the examples: one name has an address, every other lookup ends in
  \<open>NXDOMAIN\<close>.\<close>

definition resolver_one_live :: resolver where
  "resolver_one_live domain =
     (if domain = codes ''www.example.com'' then Inr [codes ''93.184.216.34'']
      else Inl (DNSException NXDOMAIN))"

subsection \<open>\<open>fetch_data_with_progress\<close> and its decorator \<open>retry_on_failure\<close>\<close>

text \<open>
  The configuration is the dictionary that \<open>load_config\<close> returns: every key is present, the
  numeric ones as integers. \<open>default_config\<close> holds the defaults of \<open>load_config\<close>; a
  configuration file can replace any of them.
\<close>

record config =
  cfg_api_url :: str
  cfg_output_format :: str
  cfg_collapse :: str
  cfg_max_results :: int
  cfg_timeout :: int
  cfg_max_retries :: int
  cfg_retry_delay :: int
  cfg_user_agent :: str

definition default_config :: config where
  "default_config =
     \<lparr>cfg_api_url = codes ''https://web.archive.org/cdx/search/cdx'',
      cfg_output_format = codes ''txt'',
      cfg_collapse = codes ''urlkey'',
      cfg_max_results = 10000,
      cfg_timeout = 30,
      cfg_max_retries = 3,
      cfg_retry_delay = 1,
      cfg_user_agent = codes ''WebArchive-Subdomain-Extractor/1.0''\<rparr>"

text \<open>
  What \<open>requests.get\<close> is called with (the URL, the five query parameters, the
  \<open>User-Agent\<close> header, the timeout, the \<open>stream\<close> flag) and what it returns: the status
  code, the lines that \<open>iter_lines()\<close> yields (or the exception that breaks the stream) and
  the decoded body.
\<close>

record request =
  get_url :: str
  param_url :: str
  param_output :: str
  param_fl :: str
  param_collapse :: str
  param_limit :: int
  header_user_agent :: str
  get_timeout :: int
  get_stream :: bool

record response =
  status_code :: nat
  iter_lines :: "error + str list"
  response_text :: str

text \<open>
  The effects of the fetch are recorded in a trace, the world: the calls of \<open>logger\<close> (with
  the values their messages show), of \<open>requests.get\<close> and of \<open>time.sleep\<close>, in the order in
  which they happen. Console output is not recorded. The network is a parameter: its answer
  to a request may depend on everything that happened before.
\<close>

datatype event =
    Info_fetching str
  | Http_get request
  | Error_fetch_failed error
  | Info_fetched nat
  | Warning_attempt_failed int error int
  | Error_final_attempt error
  | Sleep int

type_synonym world = "event list"

type_synonym network = "world \<Rightarrow> request \<Rightarrow> error + response"

text \<open>\<open>str.splitlines()\<close> and \<open>str.strip()\<close>: the line boundaries are LF, VT, FF, CR (CR LF
  counts once), FS, GS, RS, NEL, LINE SEPARATOR and PARAGRAPH SEPARATOR, and no empty line
  follows a final boundary; the white space stripped is the characters for which
  \<open>isspace()\<close> is true: TAB to CR, FS to US, the space, NEL, the no-break space, U+1680,
  U+2000 to U+200A, U+2028, U+2029, U+202F, U+205F and U+3000.\<close>

definition line_boundary :: "codepoint \<Rightarrow> bool" where
  "line_boundary c = (c \<in> {10, 11, 12, 13, 28, 29, 30, 133, 8232, 8233})"

fun splitlines_from :: "str \<Rightarrow> str \<Rightarrow> str list" where
  "splitlines_from cur [] = (if cur = [] then [] else [cur])"
| "splitlines_from cur (c # s) =
     (if c = cp (CHR 0x0D) then
        (case s of
           [] \<Rightarrow> [cur]
         | d # s' \<Rightarrow> if d = cp (CHR 0x0A) then cur # splitlines_from [] s' else cur # splitlines_from [] (d # s'))
      else if line_boundary c then cur # splitlines_from [] s
      else splitlines_from (cur @ [c]) s)"

definition splitlines :: "str \<Rightarrow> str list" where
  "splitlines s = splitlines_from [] s"

definition is_space :: "codepoint \<Rightarrow> bool" where
  "is_space c =
     (c \<in> {9, 10, 11, 12, 13, 28, 29, 30, 31, 32, 133, 160, 5760, 8232, 8233, 8239, 8287, 12288} \<or>
      (8192 \<le> c \<and> c \<le> 8202))"

definition strip :: "str \<Rightarrow> str" where
  "strip s = rev (dropWhile is_space (rev (dropWhile is_space s)))"

text \<open>
  The body of \<open>fetch_data_with_progress\<close>, the function that the decorator wraps: it logs
  that it fetches, requests the index once streamed to count the lines and once more to read
  them, and returns the stripped non-empty lines. An exception of \<open>requests.get\<close>, of
  \<open>raise_for_status\<close> (status 400 to 599) or of the stream is logged, when it is a
  \<open>RequestException\<close>, and raised again.
\<close>

definition requests_get :: "network \<Rightarrow> request \<Rightarrow> world \<Rightarrow> (error + response) \<times> world" where
  "requests_get net req w = (net w req, w @ [Http_get req])"

definition raise_for_status :: "response \<Rightarrow> error + unit" where
  "raise_for_status r =
     (if 400 \<le> status_code r \<and> status_code r < 600
      then Inl (RequestException (HTTPError (status_code r))) else Inr ())"

definition is_request_exception :: "error \<Rightarrow> bool" where
  "is_request_exception e = (case e of RequestException f \<Rightarrow> True | _ \<Rightarrow> False)"

definition fetch_except :: "error \<Rightarrow> world \<Rightarrow> (error + str list) \<times> world" where
  "fetch_except e w =
     (if is_request_exception e then (Inl e, w @ [Error_fetch_failed e]) else (Inl e, w))"

definition archive_request :: "str \<Rightarrow> config \<Rightarrow> bool \<Rightarrow> request" where
  "archive_request domain cfg streamed =
     \<lparr>get_url = cfg_api_url cfg,
      param_url = codes ''*.'' @ domain @ codes ''/*'',
      param_output = codes ''txt'',
      param_fl = codes ''original'',
      param_collapse = cfg_collapse cfg,
      param_limit = cfg_max_results cfg,
      header_user_agent = cfg_user_agent cfg,
      get_timeout = cfg_timeout cfg,
      get_stream = streamed\<rparr>"

definition fetch_body :: "network \<Rightarrow> str \<Rightarrow> config \<Rightarrow> world \<Rightarrow> (error + str list) \<times> world" where
  "fetch_body net domain cfg w0 =
     (let w1 = w0 @ [Info_fetching domain] in
      case requests_get net (archive_request domain cfg True) w1 of
        (Inl e, w2) \<Rightarrow> fetch_except e w2
      | (Inr response1, w2) \<Rightarrow>
          (case raise_for_status response1 of
             Inl e \<Rightarrow> fetch_except e w2
           | Inr _ \<Rightarrow>
               (case iter_lines response1 of
                  Inl e \<Rightarrow> fetch_except e w2
                | Inr streamed_lines \<Rightarrow>
                    (case requests_get net (archive_request domain cfg False) w2 of
                       (Inl e, w3) \<Rightarrow> fetch_except e w3
                     | (Inr response2, w3) \<Rightarrow>
                         (case raise_for_status response2 of
                            Inl e \<Rightarrow> fetch_except e w3
                          | Inr _ \<Rightarrow>
                              (let lines = filter (\<lambda>l. l \<noteq> [])
                                             (map strip (splitlines (response_text response2)))
                               in (Inr lines, w3 @ [Info_fetched (length lines)])))))))"

text \<open>
  \<open>retry_on_failure(max_retries, delay)\<close>: the loop \<open>for attempt in range(max_retries)\<close> of
  \<open>wrapper\<close>. A value of \<open>func\<close> is returned at once; an exception of the last attempt
  (\<open>attempt == max_retries - 1\<close>) is logged and raised again; an earlier one is logged as a
  warning, and \<open>time.sleep(delay)\<close> (which raises \<open>ValueError\<close> for a negative delay) comes
  before the next attempt. When the range is empty the wrapper returns \<open>None\<close>.
\<close>

function retry_loop ::
  "int \<Rightarrow> int \<Rightarrow> (world \<Rightarrow> (error + 'a) \<times> world) \<Rightarrow> int \<Rightarrow> world \<Rightarrow> (error + 'a option) \<times> world" where
  "retry_loop max_retries delay func attempt w =
     (if attempt < max_retries then
        (case func w of
           (Inr v, w') \<Rightarrow> (Inr (Some v), w')
         | (Inl e, w') \<Rightarrow>
             if attempt = max_retries - 1 then (Inl e, w' @ [Error_final_attempt e])
             else if delay < 0 then (Inl ValueError, w' @ [Warning_attempt_failed (attempt + 1) e delay])
             else retry_loop max_retries delay func (attempt + 1)
                    (w' @ [Warning_attempt_failed (attempt + 1) e delay, Sleep delay]))
      else (Inr None, w))"
  by pat_completeness auto
termination
  by (relation "measure (\<lambda>(max_retries, delay, func, attempt, w). nat (max_retries - attempt))") auto

declare retry_loop.simps [simp del]

definition retry_on_failure ::
  "int \<Rightarrow> int \<Rightarrow> (world \<Rightarrow> (error + 'a) \<times> world) \<Rightarrow> world \<Rightarrow> (error + 'a option) \<times> world" where
  "retry_on_failure max_retries delay func w = retry_loop max_retries delay func 0 w"

text \<open>The decoration in the source is \<open>@retry_on_failure(max_retries=3, delay=2)\<close>.\<close>

definition fetch_data_with_progress ::
  "network \<Rightarrow> str \<Rightarrow> config \<Rightarrow> world \<Rightarrow> (error + str list option) \<times> world" where
  "fetch_data_with_progress net domain cfg w =
     retry_on_failure 3 2 (fetch_body net domain cfg) w"

text \<open>What a trace shows of the retries: each run of the body logs \<open>Fetching data\<close> once, so
  the attempts made are these entries; the sleeps are the arguments of \<open>time.sleep\<close>.\<close>

fun is_fetching :: "event \<Rightarrow> bool" where
  "is_fetching (Info_fetching d) = True"
| "is_fetching _ = False"

definition attempts_made :: "world \<Rightarrow> nat" where
  "attempts_made w = length (filter is_fetching w)"

fun sleeps :: "world \<Rightarrow> int list" where
  "sleeps [] = []"
| "sleeps (Sleep d # w) = d # sleeps w"
| "sleeps (_ # w) = sleeps w"

text \<open>The entries of a trace that start an attempt or sleep, in their order.\<close>

fun is_sleep :: "event \<Rightarrow> bool" where
  "is_sleep (Sleep d) = True"
| "is_sleep _ = False"

definition retry_steps :: "world \<Rightarrow> event list" where
  "retry_steps w = filter (\<lambda>ev. is_fetching ev \<or> is_sleep ev) w"

text \<open>A network for the examples: the first request of a run fails to connect, the second
  times out, every later one is answered with status 503.\<close>

definition flaky_network :: network where
  "flaky_network w req =
     (case length (filter (\<lambda>ev. case ev of Http_get r \<Rightarrow> True | _ \<Rightarrow> False) w) of
        0 \<Rightarrow> Inl (RequestException ConnectionError)
      | Suc 0 \<Rightarrow> Inl (RequestException ReadTimeout)
      | _ \<Rightarrow> Inr \<lparr>status_code = 503, iter_lines = Inr [], response_text = []\<rparr>)"

definition config_5_retries :: config where
  "config_5_retries = default_config\<lparr>cfg_max_retries := 5, cfg_retry_delay := 1\<rparr>"

section \<open>Theorems\<close>

subsection \<open>The filter\<close>

text \<open>
  C8. With an absent filter specification (\<open>None\<close>) or an empty one (the dictionary with no
  key), \<open>filter_subdomains\<close> returns the input sequence unchanged, for every input sequence
  and whatever the library functions compute.
\<close>

theorem filter_absent_or_empty_identity:
  "filter_subdomains L subdomains None = Inr subdomains \<and>
   filter_subdomains L subdomains (Some empty_filters) = Inr subdomains"
  by (simp add: filter_subdomains_def not_filters_def)

subsubsection \<open>Auxiliary facts about the loop\<close>

lemma filter_loop_cong:
  "(\<And>s. s \<in> set subs \<Longrightarrow> keeps L f s = keeps L g s) \<Longrightarrow>
   filter_loop L f subs acc = filter_loop L g subs acc"
  by (induction subs arbitrary: acc) (auto split: sum.splits bool.splits)

lemma keeps_cong:
  "regex f = regex g \<Longrightarrow> length_checks L f s = length_checks L g s \<Longrightarrow>
   keeps L f s = keeps L g s"
  by (simp add: keeps_def split: sum.splits)

lemma keeps_empty: "keeps L empty_filters s = Inr True"
  by (simp add: keeps_def empty_filters_def truthy_str_def length_checks_def truthy_int_def
      excluded_by_words_def truthy_list_def)

lemma filter_loop_empty: "filter_loop L empty_filters subs acc = Inr (acc @ subs)"
  by (induction subs arbitrary: acc) (auto simp: keeps_empty)

lemma filter_subdomains_loop:
  "filter_subdomains L subs (Some f) = filter_loop L f subs []"
  by (simp add: filter_subdomains_def not_filters_def filter_loop_empty)

lemmas filter_eval =
  filter_subdomains_def not_filters_def empty_filters_def keeps_def length_checks_def
  truthy_str_def truthy_int_def truthy_list_def excluded_by_words_def codes_def

text \<open>
  C4 (as stated). The three hostnames have 13, 14 and 15 characters, so \<open>min_length = 16\<close>
  removes all of them: the result is not \<open>["ccc.example.com"]\<close>.
\<close>

theorem filter_min_length_16_counterexample:
  "filter_subdomains failing_stdlib
     [codes ''a.example.com'', codes ''bb.example.com'', codes ''ccc.example.com'']
     (Some (empty_filters\<lparr>min_length := Some 16\<rparr>)) \<noteq> Inr [codes ''ccc.example.com'']"
  by (simp add: filter_eval)

text \<open>
  C4 (amended). For the hostnames \<open>["a.example.com", "bb.example.com", "ccc.example.com"]\<close>
  the filter with \<open>min_length = 16\<close> returns the empty sequence, and the filter with
  \<open>min_length = 15\<close> returns exactly \<open>["ccc.example.com"]\<close>.
\<close>

theorem filter_min_length_example:
  "filter_subdomains L [codes ''a.example.com'', codes ''bb.example.com'', codes ''ccc.example.com'']
     (Some (empty_filters\<lparr>min_length := Some 16\<rparr>)) = Inr [] \<and>
   filter_subdomains L [codes ''a.example.com'', codes ''bb.example.com'', codes ''ccc.example.com'']
     (Some (empty_filters\<lparr>min_length := Some 15\<rparr>)) = Inr [codes ''ccc.example.com'']"
  by (simp add: filter_eval)

subsubsection \<open>Length bounds of value 0\<close>

lemma excluded_max_length_update:
  "excluded_by_words L (f\<lparr>max_length := m\<rparr>) s = excluded_by_words L f s"
  by (simp add: excluded_by_words_def)

lemma excluded_min_length_update:
  "excluded_by_words L (f\<lparr>min_length := m\<rparr>) s = excluded_by_words L f s"
  by (simp add: excluded_by_words_def)

lemma length_checks_max0:
  "length_checks L (f\<lparr>max_length := Some 0\<rparr>) s = length_checks L (f\<lparr>max_length := None\<rparr>) s"
  by (simp add: length_checks_def truthy_int_def excluded_max_length_update)

lemma length_checks_min0:
  "length_checks L (f\<lparr>min_length := Some 0\<rparr>) s = length_checks L (f\<lparr>min_length := None\<rparr>) s"
  by (simp add: length_checks_def truthy_int_def excluded_min_length_update)

lemma filter_max0:
  "filter_subdomains L subs (Some (f\<lparr>max_length := Some 0\<rparr>)) =
   filter_subdomains L subs (Some (f\<lparr>max_length := None\<rparr>))"
  unfolding filter_subdomains_loop
  by (rule filter_loop_cong, rule keeps_cong) (simp_all add: length_checks_max0)

lemma filter_min0:
  "filter_subdomains L subs (Some (f\<lparr>min_length := Some 0\<rparr>)) =
   filter_subdomains L subs (Some (f\<lparr>min_length := None\<rparr>))"
  unfolding filter_subdomains_loop
  by (rule filter_loop_cong, rule keeps_cong) (simp_all add: length_checks_min0)

lemma filter_only_max0:
  "filter_subdomains L subs (Some (empty_filters\<lparr>max_length := Some 0\<rparr>)) = Inr subs"
proof -
  have "filter_subdomains L subs (Some (empty_filters\<lparr>max_length := Some 0\<rparr>)) =
        filter_subdomains L subs (Some (empty_filters\<lparr>max_length := None\<rparr>))"
    by (rule filter_max0)
  also have "empty_filters\<lparr>max_length := None\<rparr> = empty_filters"
    by (simp add: empty_filters_def)
  finally show ?thesis
    by (simp add: filter_subdomains_def not_filters_def)
qed

text \<open>
  C9. For every hostname sequence and every filter specification \<open>f\<close>, \<open>max_length\<close> present
  with the value 0 gives the same result as \<open>max_length\<close> absent, and likewise for
  \<open>min_length\<close>; in particular the specification whose only key is \<open>max_length = 0\<close>
  excludes no hostname.
\<close>

theorem filter_zero_length_bound_skipped:
  "filter_subdomains L subs (Some (f\<lparr>max_length := Some 0\<rparr>)) =
     filter_subdomains L subs (Some (f\<lparr>max_length := None\<rparr>)) \<and>
   filter_subdomains L subs (Some (f\<lparr>min_length := Some 0\<rparr>)) =
     filter_subdomains L subs (Some (f\<lparr>min_length := None\<rparr>)) \<and>
   filter_subdomains L subs (Some (empty_filters\<lparr>max_length := Some 0\<rparr>)) = Inr subs"
  using filter_max0 filter_min0 filter_only_max0 by blast

subsubsection \<open>Exclusion words with an uppercase letter\<close>

lemma startswith_set: "startswith s w \<Longrightarrow> set w \<subseteq> set s"
  by (induction s w rule: startswith.induct) auto

lemma str_in_set: "str_in w s \<Longrightarrow> set w \<subseteq> set s"
proof (induction s)
  case Nil
  then show ?case by simp
next
  case (Cons d s)
  from Cons.prems have "startswith (d # s) w \<or> str_in w s" by simp
  then show ?case
  proof
    assume "startswith (d # s) w"
    then show ?thesis by (rule startswith_set)
  next
    assume "str_in w s"
    then have "set w \<subseteq> set s" by (rule Cons.IH)
    then show ?thesis by auto
  qed
qed

lemma lower_ascii_letter_fixed:
  assumes "list_all is_ascii s" "c \<in> set (lower L s)"
  shows "lower L [c] = [c]"
proof -
  from assms obtain d where d: "d \<in> set s" "c = ascii_lower d" "is_ascii d"
    by (auto simp: lower_def list_all_iff)
  then have "is_ascii c" "\<not> ascii_upper c"
    by (auto simp: ascii_lower_def ascii_upper_def is_ascii_def)
  then show ?thesis by (simp add: lower_def ascii_lower_def)
qed

lemma lower_changes_ascii_upper: "ascii_upper c \<Longrightarrow> lower L [c] \<noteq> [c]"
  by (simp add: lower_def ascii_lower_def ascii_upper_def is_ascii_def)

lemma changed_letter_not_in_lower:
  assumes lib: "\<And>s. list_all (\<lambda>d. lower L [d] = [d]) (unicode_lower L s)"
      and c: "c \<in> set w" "lower L [c] \<noteq> [c]"
  shows "\<not> str_in w (lower L s)"
proof
  assume "str_in w (lower L s)"
  then have in_lower: "c \<in> set (lower L s)" using c(1) str_in_set by blast
  show False
  proof (cases "list_all is_ascii s")
    case True
    then show False using in_lower c(2) lower_ascii_letter_fixed by blast
  next
    case False
    then have "c \<in> set (unicode_lower L s)" using in_lower by (simp add: lower_def)
    then show False using lib[of s] c(2) by (simp add: list_all_iff)
  qed
qed

lemma excluded_drop_changed:
  assumes "\<And>s. list_all (\<lambda>d. lower L [d] = [d]) (unicode_lower L s)"
      and "c \<in> set w" "lower L [c] \<noteq> [c]"
  shows "excluded_by_words L (f\<lparr>exclude_words := Some (ws1 @ w # ws2)\<rparr>) s =
         excluded_by_words L (f\<lparr>exclude_words := Some (ws1 @ ws2)\<rparr>) s"
  using changed_letter_not_in_lower[OF assms, of s]
  by (auto simp: excluded_by_words_def truthy_list_def)

text \<open>
  C10 (as stated). U+03D2 is an uppercase letter that \<open>lower()\<close> leaves unchanged. The
  exclusion word made of this one letter is a substring of the lowercased hostname
  \<open>U+03D2.example.com\<close>, and the filter excludes that hostname.
\<close>

theorem filter_uppercase_exclude_word_counterexample:
  "list_ex (is_upper upsilon_stdlib) [978] \<and>
   lower upsilon_stdlib (978 # codes ''.example.com'') = 978 # codes ''.example.com'' \<and>
   filter_subdomains upsilon_stdlib [978 # codes ''.example.com'']
     (Some (empty_filters\<lparr>exclude_words := Some [[978]]\<rparr>)) = Inr []"
  by code_simp

text \<open>
  C10 (amended). For every hostname sequence, every filter specification and every list of
  exclusion words: a word that contains a letter that \<open>lower()\<close> changes (each of A to Z is
  one) excludes nothing. The result with the word in the list (at any position) is the
  result with the word removed from the list, because the word is compared verbatim with the
  lowercased hostname, and a lowercased string holds no letter that \<open>lower()\<close> changes. This
  last fact is the first hypothesis, for the strings that the library lowercases; for ASCII
  strings it is proved. It holds of Python's tables.
\<close>

theorem filter_changed_letter_exclude_word_inert:
  "(\<And>s. list_all (\<lambda>d. lower L [d] = [d]) (unicode_lower L s)) \<Longrightarrow>
   c \<in> set w \<Longrightarrow> lower L [c] \<noteq> [c] \<Longrightarrow>
   (\<not> str_in w (lower L subdomain)) \<and>
   filter_subdomains L subs (Some (f\<lparr>exclude_words := Some (ws1 @ w # ws2)\<rparr>)) =
   filter_subdomains L subs (Some (f\<lparr>exclude_words := Some (ws1 @ ws2)\<rparr>))"
proof (rule conjI)
  assume lib: "\<And>s. list_all (\<lambda>d. lower L [d] = [d]) (unicode_lower L s)"
    and c: "c \<in> set w" "lower L [c] \<noteq> [c]"
  show "\<not> str_in w (lower L subdomain)"
    using lib c by (rule changed_letter_not_in_lower)
  show "filter_subdomains L subs (Some (f\<lparr>exclude_words := Some (ws1 @ w # ws2)\<rparr>)) =
        filter_subdomains L subs (Some (f\<lparr>exclude_words := Some (ws1 @ ws2)\<rparr>))"
    unfolding filter_subdomains_loop
    by (rule filter_loop_cong, rule keeps_cong)
       (simp_all add: length_checks_def excluded_drop_changed[OF lib c])
qed

lemma upsilon_lower_fixed:
  "list_all (\<lambda>d. lower upsilon_stdlib [d] = [d]) (unicode_lower upsilon_stdlib s)"
  by (auto simp: list_all_iff upsilon_stdlib_def lower_def ascii_lower_def ascii_upper_def
        is_ascii_def)

theorem filter_changed_letter_exclude_word_inert_witness:
  "(\<forall>s. list_all (\<lambda>d. lower upsilon_stdlib [d] = [d]) (unicode_lower upsilon_stdlib s)) \<and>
   cp (CHR ''A'') \<in> set (codes ''Admin'') \<and>
   lower upsilon_stdlib [cp (CHR ''A'')] \<noteq> [cp (CHR ''A'')] \<and>
   \<not> str_in (codes ''Admin'') (lower upsilon_stdlib (978 # codes ''.Admin.example.com'')) \<and>
   filter_subdomains upsilon_stdlib [978 # codes ''.Admin.example.com'', codes ''Admin.example.com'']
     (Some (empty_filters\<lparr>exclude_words := Some [codes ''Admin'']\<rparr>)) =
   Inr [978 # codes ''.Admin.example.com'', codes ''Admin.example.com'']"
proof -
  have a: "cp (CHR ''A'') \<in> set (codes ''Admin'')"
    by (simp add: codes_def)
  have b: "lower upsilon_stdlib [cp (CHR ''A'')] \<noteq> [cp (CHR ''A'')]"
    by code_simp
  have c: "filter_subdomains upsilon_stdlib
             [978 # codes ''.Admin.example.com'', codes ''Admin.example.com'']
             (Some (empty_filters\<lparr>exclude_words := Some []\<rparr>)) =
           Inr [978 # codes ''.Admin.example.com'', codes ''Admin.example.com'']"
    by code_simp
  show ?thesis
    using filter_changed_letter_exclude_word_inert
      [where L = upsilon_stdlib and c = "cp (CHR ''A'')" and w = "codes ''Admin''"
         and subdomain = "978 # codes ''.Admin.example.com''"
         and subs = "[978 # codes ''.Admin.example.com'', codes ''Admin.example.com'']"
         and f = empty_filters and ?ws1.0 = "[]" and ?ws2.0 = "[]",
       OF upsilon_lower_fixed a b]
      upsilon_lower_fixed a b c
    by simp
qed

subsection \<open>Extraction\<close>

lemma extract_step_finite: "finite A \<Longrightarrow> finite (extract_step L A url)"
  by (simp add: extract_step_def Let_def split: sum.splits)

lemma extract_fold_finite: "finite A \<Longrightarrow> finite (foldl (extract_step L) A urls)"
  by (induction urls arbitrary: A) (simp_all add: extract_step_finite)

lemma extract_step_set:
  "extract_step L A url =
     A \<union> {h. \<exists>netloc. urlparse_netloc L url = Inr netloc \<and>
                h = before_first (cp (CHR '':'')) netloc \<and> h \<noteq> [] \<and> cp (CHR ''.'') \<in> set h}"
  by (auto simp: extract_step_def Let_def split: sum.splits)

lemma extract_fold_set:
  "foldl (extract_step L) A urls =
     A \<union> {h. \<exists>url \<in> set urls. \<exists>netloc. urlparse_netloc L url = Inr netloc \<and>
                h = before_first (cp (CHR '':'')) netloc \<and> h \<noteq> [] \<and> cp (CHR ''.'') \<in> set h}"
proof (induction urls arbitrary: A)
  case Nil
  then show ?case by simp
next
  case (Cons url urls)
  show ?case
    unfolding foldl_Cons Cons.IH[of "extract_step L A url"]
    by (subst extract_step_set) auto
qed

lemma set_extract:
  "set (extract_subdomains L urls) =
     {h. \<exists>url \<in> set urls. \<exists>netloc. urlparse_netloc L url = Inr netloc \<and>
                h = before_first (cp (CHR '':'')) netloc \<and> h \<noteq> [] \<and> cp (CHR ''.'') \<in> set h}"
proof -
  have "finite (foldl (extract_step L) {} urls)"
    by (rule extract_fold_finite) simp
  then have "set (extract_subdomains L urls) = foldl (extract_step L) {} urls"
    by (simp add: extract_subdomains_def)
  then show ?thesis by (simp add: extract_fold_set)
qed

text \<open>
  C2 (as stated). The two records \<open>https://Sub.Example.com/\<close> and
  \<open>https://sub.example.com/\<close> have authorities that differ only in letter case; extraction
  returns two entries, and the first is not lowercase.
\<close>

theorem extract_case_folding_counterexample:
  "extract_subdomains failing_stdlib [codes ''https://Sub.Example.com/'', codes ''https://sub.example.com/''] =
     [codes ''Sub.Example.com'', codes ''sub.example.com''] \<and>
   lower failing_stdlib (codes ''Sub.Example.com'') \<noteq> codes ''Sub.Example.com''"
  by code_simp

text \<open>
  C2 (amended). The hostname that extraction adds for a record is the authority cut at its
  first \<open>:\<close>, verbatim (letter case kept), when that string is not empty and holds a dot:
  the entries of the output are exactly these strings, for every input sequence.
\<close>

theorem extract_entries_verbatim:
  "set (extract_subdomains L urls) =
     {h. \<exists>url \<in> set urls. \<exists>netloc. urlparse_netloc L url = Inr netloc \<and>
                h = before_first (cp (CHR '':'')) netloc \<and> h \<noteq> [] \<and> cp (CHR ''.'') \<in> set h}"
  by (rule set_extract)

theorem extract_entries_verbatim_witness:
  "codes ''Sub.Example.com'' \<in> set (extract_subdomains failing_stdlib [codes ''HTTP://Sub.Example.com:8080/x''])"
proof -
  have "urlparse_netloc failing_stdlib (codes ''HTTP://Sub.Example.com:8080/x'') = Inr (codes ''Sub.Example.com:8080'')"
    by code_simp
  moreover have "before_first (cp (CHR '':'')) (codes ''Sub.Example.com:8080'') = codes ''Sub.Example.com''"
    by code_simp
  ultimately show ?thesis
    using extract_entries_verbatim [of failing_stdlib "[codes ''HTTP://Sub.Example.com:8080/x'']"]
    by (simp add: codes_def)
qed

text \<open>
  C5. For the records \<open>["https://sub1.example.com/page", "http://sub1.example.com:8080/x",
  "not a url", "https://sub2.example.com/"]\<close> extraction returns exactly
  \<open>["sub1.example.com", "sub2.example.com"]\<close>: the port is cut off, the line that is not a
  URL gives an empty authority and is skipped, and the hostname seen twice appears once.
\<close>

theorem extract_example:
  "extract_subdomains L
     [codes ''https://sub1.example.com/page'', codes ''http://sub1.example.com:8080/x'', codes ''not a url'',
      codes ''https://sub2.example.com/''] =
   [codes ''sub1.example.com'', codes ''sub2.example.com'']"
  by code_simp

text \<open>
  C6. For every sequence of records, whatever the parser accepts or rejects, the output of
  extraction has no duplicate entry, has a dot in every entry, and is sorted ascending in
  the lexicographic order of strings.
\<close>

theorem extract_distinct_dotted_sorted:
  "distinct (extract_subdomains L urls) \<and>
   list_all (\<lambda>h. cp (CHR ''.'') \<in> set h) (extract_subdomains L urls) \<and>
   sorted (extract_subdomains L urls)"
proof -
  have "list_all (\<lambda>h. cp (CHR ''.'') \<in> set h) (extract_subdomains L urls)"
    unfolding list_all_iff set_extract by blast
  then show ?thesis by (simp add: extract_subdomains_def)
qed

subsection \<open>Domain validation\<close>

text \<open>
  What a match of \<open>domain_pattern\<close> consumes: labels of the grammar separated by dots, and
  then nothing or one final line feed.
\<close>

lemma ends_Class:
  "st' \<in> set (ends (Class P) st) \<Longrightarrow> \<exists>c. snd st = c # snd st' \<and> P c"
  by (cases "snd st") (auto simp: ends.simps(3) split: if_splits)

lemma ends_UpTo_Class:
  "st' \<in> set (ends (UpTo n (Class P)) st) \<Longrightarrow>
   \<exists>u. snd st = u @ snd st' \<and> length u \<le> n \<and> list_all P u"
proof (induction n arbitrary: st)
  case 0
  then show ?case by (simp add: ends.simps(6))
next
  case (Suc n)
  from Suc.prems consider (stop) "st' = st"
    | (step) st1 where "st1 \<in> set (ends (Class P) st)" "st' \<in> set (ends (UpTo n (Class P)) st1)"
    by (auto simp: ends.simps(7))
  then show ?case
  proof cases
    case stop
    then show ?thesis by simp
  next
    case step
    from ends_Class[OF step(1)] obtain c where c: "snd st = c # snd st1" "P c" by blast
    from Suc.IH[OF step(2)] obtain u where u: "snd st1 = u @ snd st'" "length u \<le> n" "list_all P u"
      by blast
    have "snd st = (c # u) @ snd st'" "length (c # u) \<le> Suc n" "list_all P (c # u)"
      using c u by simp_all
    then show ?thesis by blast
  qed
qed

lemma ends_label:
  assumes "st' \<in> set (ends label st)"
  shows "\<exists>u. snd st = u @ snd st' \<and> grammar_label u"
proof -
  from assms obtain st1 where st1: "st1 \<in> set (ends (Class alnum) st)"
    and rest: "st' = st1 \<or> (\<exists>st2. st2 \<in> set (ends (UpTo 61 (Class alnum_hyphen)) st1) \<and>
                 st' \<in> set (ends (Class alnum) st2))"
    unfolding label_def by (auto simp: ends.simps(4,5))
  from ends_Class[OF st1] obtain c where c: "snd st = c # snd st1" "alnum c" by blast
  from rest show ?thesis
  proof
    assume "st' = st1"
    then have "snd st = [c] @ snd st'" "grammar_label [c]"
      using c by (simp_all add: grammar_label_def alnum_hyphen_def)
    then show ?thesis by blast
  next
    assume "\<exists>st2. st2 \<in> set (ends (UpTo 61 (Class alnum_hyphen)) st1) \<and>
                 st' \<in> set (ends (Class alnum) st2)"
    then obtain st2 where st2: "st2 \<in> set (ends (UpTo 61 (Class alnum_hyphen)) st1)"
      and l: "st' \<in> set (ends (Class alnum) st2)" by blast
    from ends_UpTo_Class[OF st2] obtain u where u: "snd st1 = u @ snd st2" "length u \<le> 61"
      "list_all alnum_hyphen u" by blast
    from ends_Class[OF l] obtain d where d: "snd st2 = d # snd st'" "alnum d" by blast
    have "snd st = (c # u @ [d]) @ snd st'" "grammar_label (c # u @ [d])"
      using c u d by (simp_all add: grammar_label_def alnum_hyphen_def)
    then show ?thesis by blast
  qed
qed

lemma ends_dot_label:
  assumes "st' \<in> set (ends (Seq (Class (\<lambda>c. c = cp (CHR ''.''))) label) st)"
  shows "\<exists>u. snd st = cp (CHR ''.'') # u @ snd st' \<and> grammar_label u"
proof -
  from assms obtain st1 where st1: "st1 \<in> set (ends (Class (\<lambda>c. c = cp (CHR ''.''))) st)"
    and l: "st' \<in> set (ends label st1)" by (auto simp: ends.simps(4))
  from ends_Class[OF st1] have "snd st = cp (CHR ''.'') # snd st1" by blast
  with ends_label[OF l] show ?thesis by auto
qed

lemma ends_dot_labels:
  "st' \<in> set (ends (Star (Seq (Class (\<lambda>c. c = cp (CHR ''.''))) label)) st) \<Longrightarrow>
   \<exists>ls. snd st = concat (map ((#) (cp (CHR ''.''))) ls) @ snd st' \<and> list_all grammar_label ls"
proof (induction "length (snd st)" arbitrary: st rule: less_induct)
  case less
  let ?r = "Seq (Class (\<lambda>c. c = cp (CHR ''.''))) label"
  from less.prems consider (stop) "st' = st"
    | (step) st1 where "st1 \<in> set (ends ?r st)" "length (snd st1) < length (snd st)"
        "st' \<in> set (ends (Star ?r) st1)"
    by (subst (asm) ends.simps(8)) (auto split: if_splits)
  then show ?case
  proof cases
    case stop
    then have "snd st = concat (map ((#) (cp (CHR ''.''))) []) @ snd st'" "list_all grammar_label []" by simp_all
    then show ?thesis by blast
  next
    case step
    from ends_dot_label[OF step(1)] obtain u where u: "snd st = cp (CHR ''.'') # u @ snd st1" "grammar_label u"
      by blast
    from less.hyps[OF step(2) step(3)] obtain ls where
      ls: "snd st1 = concat (map ((#) (cp (CHR ''.''))) ls) @ snd st'" "list_all grammar_label ls" by blast
    have "snd st = concat (map ((#) (cp (CHR ''.''))) (u # ls)) @ snd st'" "list_all grammar_label (u # ls)"
      using u ls by simp_all
    then show ?thesis by blast
  qed
qed

lemma domain_pattern_shape:
  assumes "re_match domain_pattern s"
  shows "\<exists>l ls t. s = l @ concat (map ((#) (cp (CHR ''.''))) ls) @ t \<and> grammar_label l \<and> list_all grammar_label ls \<and>
           (t = [] \<or> t = [cp (CHR 0x0A)])"
proof -
  let ?dots = "Star (Seq (Class (\<lambda>c. c = cp (CHR ''.''))) label)"
  from assms obtain st4 where "st4 \<in> set (ends domain_pattern (0, s))"
    unfolding re_match_def by (meson last_in_set)
  then obtain st1 st2 st3 where
    1: "st1 \<in> set (ends Bol (0, s))" and 2: "st2 \<in> set (ends label st1)"
    and 3: "st3 \<in> set (ends ?dots st2)" and 4: "st4 \<in> set (ends Eol st3)"
    unfolding domain_pattern_def by (auto simp: ends.simps(4))
  from 1 have s1: "snd st1 = s" by (auto simp: ends.simps(1) split: if_splits)
  from ends_label[OF 2] obtain l where l: "snd st1 = l @ snd st2" "grammar_label l" by blast
  from ends_dot_labels[OF 3] obtain ls where ls: "snd st2 = concat (map ((#) (cp (CHR ''.''))) ls) @ snd st3"
    "list_all grammar_label ls" by blast
  from 4 have t: "snd st3 = [] \<or> snd st3 = [cp (CHR 0x0A)]" by (auto simp: ends.simps(2) split: if_splits)
  show ?thesis using s1 l ls t by metis
qed

text \<open>
  So \<open>validate_domain\<close> returns the lowercased string only for a dotted sequence of grammar
  labels followed by at most one line feed. Every other character outside the alphabet is
  refused, and so is every run of more than 63 characters without a dot.
\<close>

lemma sublist_split_at:
  assumes "sublist u (a @ c # b)" "c \<notin> set u"
  shows "sublist u a \<or> sublist u b"
proof -
  from assms(1) consider "sublist u a" | "sublist u (c # b)"
    | x1 x2 where "u = x1 @ x2" "suffix x1 a" "prefix x2 (c # b)"
    unfolding sublist_append by blast
  then show ?thesis
  proof cases
    case 1
    then show ?thesis ..
  next
    case 2
    then have "prefix u (c # b) \<or> sublist u b" by (simp add: sublist_Cons_right)
    moreover have "u = []" if "prefix u (c # b)"
      using that assms(2) by (cases u) auto
    ultimately show ?thesis by auto
  next
    case 3
    have "x2 = []" using 3(1,3) assms(2) by (cases x2) auto
    with 3 show ?thesis by auto
  qed
qed

lemma sublist_of_dotted:
  assumes "sublist u (l @ concat (map ((#) (cp (CHR ''.''))) ls))" "cp (CHR ''.'') \<notin> set u"
  shows "sublist u l \<or> (\<exists>l' \<in> set ls. sublist u l')"
  using assms
proof (induction ls arbitrary: l)
  case Nil
  then show ?case by simp
next
  case (Cons l1 ls)
  from Cons.prems have "sublist u (l @ cp (CHR ''.'') # (l1 @ concat (map ((#) (cp (CHR ''.''))) ls)))"
    by simp
  then have "sublist u l \<or> sublist u (l1 @ concat (map ((#) (cp (CHR ''.''))) ls))"
    using Cons.prems(2) by (rule sublist_split_at)
  then show ?case using Cons.IH[of l1] Cons.prems(2) by auto
qed

lemma validate_domain_shape:
  assumes "validate_domain L s = Inr v"
  shows "v = lower L s \<and>
         (\<exists>l ls t. s = l @ concat (map ((#) (cp (CHR ''.''))) ls) @ t \<and> grammar_label l \<and>
            list_all grammar_label ls \<and> (t = [] \<or> t = [cp (CHR 0x0A)]))"
  using assms domain_pattern_shape[of s]
  by (auto simp: validate_domain_def split: if_splits)

lemma validate_domain_alphabet:
  assumes "validate_domain L s = Inr v" "c \<in> set s"
  shows "alnum_hyphen c \<or> c = cp (CHR ''.'') \<or> (c = cp (CHR 0x0A) \<and> last s = cp (CHR 0x0A))"
proof -
  from validate_domain_shape[OF assms(1)] obtain l ls t where
    s: "s = l @ concat (map ((#) (cp (CHR ''.''))) ls) @ t" and l: "grammar_label l" and ls: "list_all grammar_label ls"
    and t: "t = [] \<or> t = [cp (CHR 0x0A)]" by blast
  from assms(2) s consider "c \<in> set l" | "c = cp (CHR ''.'')" | l' where "l' \<in> set ls" "c \<in> set l'"
    | "c \<in> set t"
    by (auto split: if_splits)
  then show ?thesis
  proof cases
    case 1
    then show ?thesis using l by (auto simp: grammar_label_def list_all_iff)
  next
    case 2
    then show ?thesis by simp
  next
    case 3
    then show ?thesis using ls by (auto simp: grammar_label_def list_all_iff)
  next
    case 4
    then show ?thesis using t s by auto
  qed
qed

lemma validate_domain_label_length:
  assumes "validate_domain L s = Inr v" "sublist u s" "cp (CHR ''.'') \<notin> set u" "cp (CHR 0x0A) \<notin> set u"
  shows "length u \<le> 63"
proof -
  from validate_domain_shape[OF assms(1)] obtain l ls t where
    s: "s = l @ concat (map ((#) (cp (CHR ''.''))) ls) @ t" and l: "grammar_label l" and ls: "list_all grammar_label ls"
    and t: "t = [] \<or> t = [cp (CHR 0x0A)]" by blast
  let ?body = "l @ concat (map ((#) (cp (CHR ''.''))) ls)"
  have "sublist u ?body"
  proof (cases "t = []")
    case True
    then show ?thesis using assms(2) s by simp
  next
    case False
    then have "sublist u (?body @ cp (CHR 0x0A) # [])" using assms(2) s t by simp
    then have "sublist u ?body \<or> sublist u []" using assms(4) by (rule sublist_split_at)
    then show ?thesis by auto
  qed
  then have "sublist u l \<or> (\<exists>l' \<in> set ls. sublist u l')"
    using assms(3) by (rule sublist_of_dotted)
  then obtain l' where "sublist u l'" "grammar_label l'"
    using l ls by (auto simp: list_all_iff)
  then show ?thesis
    using sublist_length_le[of u l'] by (simp add: grammar_label_def)
qed

text \<open>
  C7. The string \<open>example.com\<close> followed by a line feed holds a character outside the
  alphabet of the domain grammar, and \<open>validate_domain\<close> accepts it: \<open>$\<close> matches before the
  final line feed, and the function returns the string with the line feed in it. The empty
  string, a label of 64 characters, a space inside the name and a trailing dot are refused,
  as the lemmas above show for every string without a final line feed.
\<close>

theorem validate_domain_trailing_newline:
  "validate_domain L (codes ''example.com'' @ [cp (CHR 0x0A)]) =
     Inr (codes ''example.com'' @ [cp (CHR 0x0A)]) \<and>
   validate_domain L [] = Inl ValueError \<and>
   validate_domain L (replicate 64 (cp (CHR ''a'')) @ codes ''.com'') = Inl ValueError \<and>
   validate_domain L (codes ''exa mple.com'') = Inl ValueError \<and>
   validate_domain L (codes ''example.com.'') = Inl ValueError"
  by code_simp

subsection \<open>DNS validation\<close>

lemma dns_check_loop_failure:
  "list_all (\<lambda>d. \<exists>answers. resolve d = Inr answers) before \<Longrightarrow> resolve domain = Inl e \<Longrightarrow>
   dns_check_loop resolve (before @ domain # rest) valid = Inl e"
  by (induction before arbitrary: valid) auto

lemma dns_check_domain_failure:
  "list_all (\<lambda>d. \<exists>answers. resolve d = Inr answers) before \<Longrightarrow> resolve domain = Inl e \<Longrightarrow>
   dns_check_domain resolve (before @ domain # rest) = Inl e"
  by (simp add: dns_check_domain_def dns_check_loop_failure)

text \<open>
  C1. A lookup that fails aborts the batch: with a resolver that knows only
  \<open>www.example.com\<close>, the batch \<open>["dead.example.com"]\<close>, in which every lookup fails, ends in
  the exception \<open>NXDOMAIN\<close> and not in the empty sequence, and the batch
  \<open>["www.example.com", "dead.example.com"]\<close> ends in the same exception and not in
  \<open>["www.example.com"]\<close>.
\<close>

theorem dns_check_failed_lookup_raises:
  "dns_check_domain resolver_one_live [codes ''dead.example.com''] = Inl (DNSException NXDOMAIN) \<and>
   dns_check_domain resolver_one_live [codes ''www.example.com'', codes ''dead.example.com''] =
     Inl (DNSException NXDOMAIN)"
  by code_simp

subsection \<open>The archive fetch and its retries\<close>

lemma archive_request_ignores_retry_settings:
  "archive_request domain (cfg\<lparr>cfg_max_retries := m, cfg_retry_delay := d\<rparr>) streamed =
   archive_request domain cfg streamed"
  by (simp add: archive_request_def)

lemma fetch_body_ignores_retry_settings:
  "fetch_body net domain (cfg\<lparr>cfg_max_retries := m, cfg_retry_delay := d\<rparr>) = fetch_body net domain cfg"
  unfolding fetch_body_def archive_request_ignores_retry_settings ..

text \<open>
  The options bundle reaches the fetch only through the request: its \<open>max_retries\<close> and
  \<open>retry_delay\<close> change nothing. When the first attempt fails with \<open>e1\<close>, the second, made
  after the warning and a sleep of 2 seconds, fails with \<open>e2\<close>, and the third, made after
  another warning and sleep of 2 seconds, fails with \<open>e3\<close>, the fetch logs the final failure
  and raises \<open>e3\<close>: there is no fourth attempt, whatever the bundle says.
\<close>

lemma fetch_data_ignores_retry_settings:
  "fetch_data_with_progress net domain (cfg\<lparr>cfg_max_retries := m, cfg_retry_delay := d\<rparr>) w =
   fetch_data_with_progress net domain cfg w"
  by (simp add: fetch_data_with_progress_def fetch_body_ignores_retry_settings)

lemma fetch_three_failed_attempts:
  assumes "fetch_body net domain cfg w = (Inl e1, w1)"
      and "fetch_body net domain cfg (w1 @ [Warning_attempt_failed 1 e1 2, Sleep 2]) = (Inl e2, w2)"
      and "fetch_body net domain cfg (w2 @ [Warning_attempt_failed 2 e2 2, Sleep 2]) = (Inl e3, w3)"
  shows "fetch_data_with_progress net domain cfg w = (Inl e3, w3 @ [Error_final_attempt e3])"
  using assms
  by (simp add: fetch_data_with_progress_def retry_on_failure_def retry_loop.simps)

text \<open>
  C3. With \<open>max_retries = 5\<close> and \<open>retry_delay = 1\<close> in the options bundle and a network on
  which every attempt fails, the fetch makes 3 attempts, not 5, and sleeps 2 seconds between
  consecutive attempts, not 1 second: the steps of the run are attempt, sleep 2, attempt,
  sleep 2, attempt. It raises the failure of the third attempt.
\<close>

theorem fetch_retries_ignore_options:
  "int (attempts_made (snd (fetch_data_with_progress flaky_network (codes ''example.com'') config_5_retries [])))
     \<noteq> cfg_max_retries config_5_retries \<and>
   sleeps (snd (fetch_data_with_progress flaky_network (codes ''example.com'') config_5_retries []))
     \<noteq> replicate 2 (cfg_retry_delay config_5_retries) \<and>
   attempts_made (snd (fetch_data_with_progress flaky_network (codes ''example.com'') config_5_retries [])) = 3 \<and>
   sleeps (snd (fetch_data_with_progress flaky_network (codes ''example.com'') config_5_retries [])) = [2, 2] \<and>
   retry_steps (snd (fetch_data_with_progress flaky_network (codes ''example.com'') config_5_retries [])) =
     [Info_fetching (codes ''example.com''), Sleep 2, Info_fetching (codes ''example.com''), Sleep 2,
      Info_fetching (codes ''example.com'')] \<and>
   fst (fetch_data_with_progress flaky_network (codes ''example.com'') config_5_retries []) =
     Inl (RequestException (HTTPError 503))"
  by code_simp

end
